theory Spec2Isabelle
  imports Main "HOL-Library.Sublist" "HOL-Library.Log_Nat"
begin

section \<open>Python strings\<close>

text \<open>
  A Python \<^verbatim>\<open>str\<close> is modelled as a \<^typ>\<open>string\<close> whose characters are the code
  points U+0000 to U+00FF. On that range \<^verbatim>\<open>str.strip()\<close> removes the characters for
  which \<^verbatim>\<open>str.isspace()\<close> holds (9 to 13, 28 to 32, 133 and 160) and
  \<^verbatim>\<open>str.lower()\<close> maps \<^verbatim>\<open>A-Z\<close> and the Latin-1 capitals (192 to 222 without 215)
  to the letter 32 code points above, one character to one character.
\<close>

definition is_space :: "char \<Rightarrow> bool" where
  "is_space c =
     (let n = (of_char c :: nat)
      in (9 \<le> n \<and> n \<le> 13) \<or> (28 \<le> n \<and> n \<le> 32) \<or> n = 133 \<or> n = 160)"

definition strip :: "string \<Rightarrow> string" where
  "strip s = rev (dropWhile is_space (rev (dropWhile is_space s)))"

definition lower_char :: "char \<Rightarrow> char" where
  "lower_char c =
     (let n = (of_char c :: nat)
      in if (65 \<le> n \<and> n \<le> 90) \<or> (192 \<le> n \<and> n \<le> 222 \<and> n \<noteq> 215)
         then char_of (n + 32) else c)"

definition lower :: "string \<Rightarrow> string" where
  "lower s = map lower_char s"

text \<open>\<^verbatim>\<open>old in s\<close> on strings: \<open>k\<close> occurs in \<open>s\<close> as a contiguous run.\<close>

fun contains :: "string \<Rightarrow> string \<Rightarrow> bool" where
  "contains k [] = (k = [])"
| "contains k (c # cs) = (if prefix k (c # cs) then True else contains k cs)"

text \<open>\<^verbatim>\<open>s.replace(old, "")\<close> for a one-character \<open>old\<close>.\<close>

definition remove_char :: "char \<Rightarrow> string \<Rightarrow> string" where
  "remove_char x s = filter (\<lambda>c. c \<noteq> x) s"

text \<open>\<^verbatim>\<open>sep.join(parts)\<close>.\<close>

fun join :: "string \<Rightarrow> string list \<Rightarrow> string" where
  "join sep [] = []"
| "join sep [p] = p"
| "join sep (p # q # ps) = p @ sep @ join sep (q # ps)"

section \<open>Python floats\<close>

text \<open>
  A Python \<^verbatim>\<open>float\<close> is an IEEE 754 binary64 value: a finite double (given by its exact
  rational value; the two zeros are not told apart), an infinity or a NaN.
\<close>

datatype pyfloat = Fin rat | PInf | NInf | NaN

text \<open>The comparison \<^verbatim>\<open>amount <= 0\<close>; every comparison with a NaN is false.\<close>

definition float_le_zero :: "pyfloat \<Rightarrow> bool" where
  "float_le_zero a = (case a of Fin v \<Rightarrow> v \<le> 0 | PInf \<Rightarrow> False | NInf \<Rightarrow> True | NaN \<Rightarrow> False)"

definition round_half_even :: "rat \<Rightarrow> int" where
  "round_half_even q =
     (let f = \<lfloor>q\<rfloor>; d = q - of_int f
      in if d < 1 / 2 then f else if 1 / 2 < d then f + 1 else if even f then f else f + 1)"

text \<open>For \<open>a > 0\<close>, the integer \<open>e\<close> with \<open>2 powi e \<le> a < 2 powi (e + 1)\<close>.\<close>

definition floor_log2 :: "rat \<Rightarrow> int" where
  "floor_log2 a =
     (let (n, d) = quotient_of a;
          e = int (floorlog 2 (nat n)) - int (floorlog 2 (nat d))
      in if 2 powi e \<le> a then e else e - 1)"

text \<open>
  The double nearest to a rational, ties to the even significand: 53 bits of significand,
  exponents from -1022, subnormals below, overflow to an infinity.
\<close>

definition binary64 :: "rat \<Rightarrow> pyfloat" where
  "binary64 x =
     (if x = 0 then Fin 0
      else let a = \<bar>x\<bar>;
               q = max (floor_log2 a) (- 1022) - 52;
               m = round_half_even (a / 2 powi q);
               v = of_int m * 2 powi q
           in if 2 ^ 1024 \<le> v then (if 0 < x then PInf else NInf)
              else Fin (if 0 < x then v else - v))"

subsection \<open>\<^verbatim>\<open>float(s)\<close> on a string\<close>

definition is_digit :: "char \<Rightarrow> bool" where
  "is_digit c = (let n = (of_char c :: nat) in 48 \<le> n \<and> n \<le> 57)"

definition digit_val :: "char \<Rightarrow> nat" where
  "digit_val c = of_char c - 48"

fun digits_val :: "nat \<Rightarrow> string \<Rightarrow> nat" where
  "digits_val acc [] = acc"
| "digits_val acc (c # cs) = digits_val (10 * acc + digit_val c) cs"

text \<open>
  An underscore is accepted only between two digits, and is then ignored; \<open>prev\<close> is the
  character before the rest being read.
\<close>

fun drop_underscores :: "char \<Rightarrow> string \<Rightarrow> string option" where
  "drop_underscores prev [] = (if prev = CHR ''_'' then None else Some [])"
| "drop_underscores prev (c # cs) =
     (if c = CHR ''_'' then (if is_digit prev then drop_underscores c cs else None)
      else if prev = CHR ''_'' \<and> \<not> is_digit c then None
      else map_option ((#) c) (drop_underscores c cs))"

text \<open>The exponent part: nothing, or \<open>e\<close>/\<open>E\<close>, an optional sign and at least one digit.\<close>

definition parse_exponent :: "string \<Rightarrow> int option" where
  "parse_exponent r =
     (case r of
        [] \<Rightarrow> Some 0
      | c # r1 \<Rightarrow>
          if c = CHR ''e'' \<or> c = CHR ''E'' then
            (let neg = (case r1 of [] \<Rightarrow> False | s # _ \<Rightarrow> s = CHR ''-'');
                 r2 = (case r1 of [] \<Rightarrow> []
                       | s # t \<Rightarrow> if s = CHR ''-'' \<or> s = CHR ''+'' then t else r1)
             in if r2 \<noteq> [] \<and> list_all is_digit r2
                then Some (if neg then - int (digits_val 0 r2) else int (digits_val 0 r2))
                else None)
          else None)"

text \<open>
  An unsigned decimal literal: digits, an optional point and digits, at least one digit
  in all, then the exponent part; its value is exact.
\<close>

definition parse_number :: "string \<Rightarrow> rat option" where
  "parse_number b =
     (let ip = takeWhile is_digit b;
          r1 = dropWhile is_digit b;
          fp = (case r1 of [] \<Rightarrow> []
                | c # r \<Rightarrow> if c = CHR ''.'' then takeWhile is_digit r else []);
          r2 = (case r1 of [] \<Rightarrow> []
                | c # r \<Rightarrow> if c = CHR ''.'' then dropWhile is_digit r else r1)
      in if ip @ fp = [] then None
         else case parse_exponent r2 of
                None \<Rightarrow> None
              | Some e \<Rightarrow>
                  Some (of_nat (digits_val 0 (ip @ fp)) * 10 powi (e - int (length fp))))"

text \<open>
  \<^verbatim>\<open>float(s)\<close>: \<open>None\<close> is the \<^verbatim>\<open>ValueError\<close>. Surrounding white space is ignored, then
  comes an optional sign and \<^verbatim>\<open>inf\<close>, \<^verbatim>\<open>infinity\<close> or \<^verbatim>\<open>nan\<close> in any casing, or a
  decimal literal, which is rounded to the nearest double.
\<close>

definition py_float :: "string \<Rightarrow> pyfloat option" where
  "py_float s =
     (case drop_underscores (CHR 0x00) (strip s) of
        None \<Rightarrow> None
      | Some t \<Rightarrow>
          (let neg = (case t of [] \<Rightarrow> False | c # _ \<Rightarrow> c = CHR ''-'');
               b = (case t of [] \<Rightarrow> []
                    | c # r \<Rightarrow> if c = CHR ''-'' \<or> c = CHR ''+'' then r else t)
           in if lower b = ''inf'' \<or> lower b = ''infinity''
              then Some (if neg then NInf else PInf)
              else if lower b = ''nan'' then Some NaN
              else map_option (\<lambda>v. binary64 (if neg then - v else v)) (parse_number b)))"

subsection \<open>Formatting numbers\<close>

fun show_nat :: "nat \<Rightarrow> string" where
  "show_nat n =
     (if n < 10 then [char_of (48 + n)]
      else show_nat (n div 10) @ [char_of (48 + n mod 10)])"

text \<open>Zero padding on the left up to a width, as the format \<^verbatim>\<open>04d\<close> does for a natural.\<close>

definition zfill :: "nat \<Rightarrow> string \<Rightarrow> string" where
  "zfill width s = replicate (width - length s) (CHR ''0'') @ s"

text \<open>
  The format \<^verbatim>\<open>.2f\<close> of a float: the exact value rounded to two decimals, ties to even.
\<close>

definition format_2f :: "pyfloat \<Rightarrow> string" where
  "format_2f a =
     (case a of
        Fin v \<Rightarrow>
          (let n = nat (round_half_even (\<bar>v\<bar> * 100))
           in (if v < 0 then ''-'' else []) @ show_nat (n div 100) @ ''.''
              @ zfill 2 (show_nat (n mod 100)))
      | PInf \<Rightarrow> ''inf''
      | NInf \<Rightarrow> ''-inf''
      | NaN \<Rightarrow> ''nan'')"

section \<open>Intent catalog and router (configuration.py, router.py)\<close>

record intent_config =
  name :: string
  handler :: string
  keywords_of :: "string list"
  entities :: "string \<rightharpoonup> string list"

text \<open>The inner loop of \<^verbatim>\<open>IntentRouter.match\<close>: does any keyword occur in \<open>cleaned\<close>?\<close>

fun any_keyword_in :: "string list \<Rightarrow> string \<Rightarrow> bool" where
  "any_keyword_in [] cleaned = False"
| "any_keyword_in (keyword # ks) cleaned =
     (if contains keyword cleaned then True else any_keyword_in ks cleaned)"

text \<open>The outer loop: the first intent of the catalog with such a keyword.\<close>

fun first_match :: "intent_config list \<Rightarrow> string \<Rightarrow> intent_config option" where
  "first_match [] cleaned = None"
| "first_match (intent # rest) cleaned =
     (if any_keyword_in (keywords_of intent) cleaned then Some intent
      else first_match rest cleaned)"

definition match :: "intent_config list \<Rightarrow> string \<Rightarrow> intent_config option" where
  "match intents utterance =
     (if utterance = [] then None else first_match intents (lower utterance))"

section \<open>Conversation state (state.py)\<close>

text \<open>A slot holds a string or a number (\<^verbatim>\<open>Dict[str, Any]\<close> in the source).\<close>

datatype slot_value = SStr string | SNum pyfloat

record conversation_state =
  intent_name :: "string option"
  handler_key :: "string option"
  step :: "string option"
  slots :: "string \<rightharpoonup> slot_value"

definition reset :: "conversation_state \<Rightarrow> conversation_state" where
  "reset st = \<lparr>intent_name = None, handler_key = None, step = None, slots = Map.empty\<rparr>"

definition active :: "conversation_state \<Rightarrow> bool" where
  "active st = (intent_name st \<noteq> None \<and> handler_key st \<noteq> None)"

section \<open>External services (services.py)\<close>

text \<open>
  One call of a service method, with the slot values passed as its arguments. The
  world of a conversation is its state and the calls made so far, oldest first.
\<close>

datatype svc_call =
    OpenAccount slot_value slot_value slot_value
  | Transfer slot_value slot_value slot_value
  | SendMessage slot_value slot_value

datatype py_error =
    HandlerNotFoundError string
  | KeyError string
  | AttributeError
  | ValueError
  | NotImplementedError

record world =
  state :: conversation_state
  calls :: "svc_call list"

text \<open>
  What is fixed when a \<^verbatim>\<open>ChatbotEngine\<close> is built: the loaded intent catalog and the
  three services, given by what a call returns (an identifier) or raises after the
  calls made before it. \<open>title\<close> stands for \<^verbatim>\<open>str.title()\<close> and \<open>float_repr\<close> for
  \<^verbatim>\<open>str()\<close> of a float, which the replies only print.
\<close>

record engine =
  intents :: "intent_config list"
  respond :: "svc_call list \<Rightarrow> svc_call \<Rightarrow> py_error + string"
  title :: "string \<Rightarrow> string"
  float_repr :: "pyfloat \<Rightarrow> string"

definition call_service :: "engine \<Rightarrow> svc_call \<Rightarrow> world \<Rightarrow> (py_error + string) \<times> world" where
  "call_service eng c w = (respond eng (calls w) c, w\<lparr>calls := calls w @ [c]\<rparr>)"

text \<open>The in-memory services: the identifier counts the records stored so far.\<close>

definition stored :: "svc_call \<Rightarrow> bool" where
  "stored c =
     (case c of
        OpenAccount n t d \<Rightarrow> (case d of SNum x \<Rightarrow> True | SStr x \<Rightarrow> False)
      | Transfer f t a \<Rightarrow> (case a of SNum x \<Rightarrow> True | SStr x \<Rightarrow> False)
      | SendMessage t m \<Rightarrow> True)"

definition is_open_account :: "svc_call \<Rightarrow> bool" where
  "is_open_account c = (case c of OpenAccount n t d \<Rightarrow> True | Transfer f t a \<Rightarrow> False | SendMessage t m \<Rightarrow> False)"

definition is_transfer :: "svc_call \<Rightarrow> bool" where
  "is_transfer c = (case c of OpenAccount n t d \<Rightarrow> False | Transfer f t a \<Rightarrow> True | SendMessage t m \<Rightarrow> False)"

definition is_send_message :: "svc_call \<Rightarrow> bool" where
  "is_send_message c = (case c of OpenAccount n t d \<Rightarrow> False | Transfer f t a \<Rightarrow> False | SendMessage t m \<Rightarrow> True)"

definition next_id :: "string \<Rightarrow> (svc_call \<Rightarrow> bool) \<Rightarrow> svc_call list \<Rightarrow> string" where
  "next_id tag kind past =
     tag @ zfill 4 (show_nat (length (filter (\<lambda>c. kind c \<and> stored c) past) + 1))"

definition in_memory :: "svc_call list \<Rightarrow> svc_call \<Rightarrow> py_error + string" where
  "in_memory past c =
     (if \<not> stored c then Inl ValueError
      else case c of
             OpenAccount n t d \<Rightarrow> Inr (next_id ''ACC'' is_open_account past)
           | Transfer f t a \<Rightarrow> Inr (next_id ''TRX'' is_transfer past)
           | SendMessage t m \<Rightarrow> Inr (next_id ''MSG'' is_send_message past))"

section \<open>Handlers (handlers.py)\<close>

record handler_result =
  reply :: string
  completed :: bool
  error :: bool

text \<open>\<^verbatim>\<open>HandlerResult(reply, completed, error)\<close>.\<close>

definition HandlerResult :: "string \<Rightarrow> bool \<Rightarrow> bool \<Rightarrow> handler_result" where
  "HandlerResult r c e = \<lparr>reply = r, completed = c, error = e\<rparr>"

datatype handler_id = AccountOpening | MoneyTransfer | AdvisorMessaging

fun h_intent_name :: "handler_id \<Rightarrow> string" where
  "h_intent_name AccountOpening = ''account_opening''"
| "h_intent_name MoneyTransfer = ''money_transfer''"
| "h_intent_name AdvisorMessaging = ''secure_advisor_message''"

fun h_handler_key :: "handler_id \<Rightarrow> string" where
  "h_handler_key AccountOpening = ''account_opening''"
| "h_handler_key MoneyTransfer = ''money_transfer''"
| "h_handler_key AdvisorMessaging = ''advisor_message''"

fun first_step :: "handler_id \<Rightarrow> string" where
  "first_step AccountOpening = ''collect_full_name''"
| "first_step MoneyTransfer = ''collect_from_account''"
| "first_step AdvisorMessaging = ''collect_topic''"

subsection \<open>Reading slots and building replies\<close>

definition bnd :: "py_error + 'a \<Rightarrow> ('a \<Rightarrow> py_error + 'b) \<Rightarrow> py_error + 'b" where
  "bnd x f = (case x of Inl e \<Rightarrow> Inl e | Inr v \<Rightarrow> f v)"

text \<open>\<^verbatim>\<open>state.slots[key]\<close>.\<close>

definition get_slot :: "conversation_state \<Rightarrow> string \<Rightarrow> py_error + slot_value" where
  "get_slot st k = (case slots st k of None \<Rightarrow> Inl (KeyError k) | Some v \<Rightarrow> Inr v)"

text \<open>\<^verbatim>\<open>value.title()\<close>, \<^verbatim>\<open>f"{value:.2f}"\<close> and \<^verbatim>\<open>f"{value}"\<close> on a slot value.\<close>

definition slot_title :: "engine \<Rightarrow> slot_value \<Rightarrow> py_error + string" where
  "slot_title eng v = (case v of SStr s \<Rightarrow> Inr (title eng s) | SNum x \<Rightarrow> Inl AttributeError)"

definition slot_2f :: "slot_value \<Rightarrow> py_error + string" where
  "slot_2f v = (case v of SStr s \<Rightarrow> Inl ValueError | SNum x \<Rightarrow> Inr (format_2f x))"

definition slot_str :: "engine \<Rightarrow> slot_value \<Rightarrow> string" where
  "slot_str eng v = (case v of SStr s \<Rightarrow> s | SNum x \<Rightarrow> float_repr eng x)"

definition set_slot :: "string \<Rightarrow> slot_value \<Rightarrow> world \<Rightarrow> world" where
  "set_slot k v w = w\<lparr>state := (state w)\<lparr>slots := (slots (state w))(k \<mapsto> v)\<rparr>\<rparr>"

definition set_step :: "string \<Rightarrow> world \<Rightarrow> world" where
  "set_step s w = w\<lparr>state := (state w)\<lparr>step := Some s\<rparr>\<rparr>"

definition reset_state :: "world \<Rightarrow> world" where
  "reset_state w = w\<lparr>state := reset (state w)\<rparr>"

text \<open>\<^verbatim>\<open>tuple(dict.fromkeys(xs))\<close>: the first occurrence of each element, in order.\<close>

fun dedupe :: "'a list \<Rightarrow> 'a list" where
  "dedupe [] = []"
| "dedupe (x # xs) = x # dedupe (filter (\<lambda>y. y \<noteq> x) xs)"

text \<open>
  The account types the engine hands to the account-opening handler
  (\<^verbatim>\<open>_build_handlers\<close>), as the handler normalises them.
\<close>

definition configured_account_types :: "intent_config list \<Rightarrow> string list" where
  "configured_account_types cat =
     (case find (\<lambda>i. handler i = ''account_opening'') cat of
        None \<Rightarrow> []
      | Some i \<Rightarrow> (case entities i ''account_type'' of None \<Rightarrow> [] | Some ts \<Rightarrow> ts))"

definition account_types :: "engine \<Rightarrow> string list" where
  "account_types eng =
     (let ts = configured_account_types (intents eng)
      in dedupe (map lower (if ts = [] then [''checking'', ''savings''] else ts)))"

definition choices :: "engine \<Rightarrow> string" where
  "choices eng = join '', '' (map (title eng) (account_types eng))"

subsection \<open>Account opening\<close>

definition AO_prompt :: "engine \<Rightarrow> conversation_state \<Rightarrow> py_error + handler_result" where
  "AO_prompt eng st =
     (if step st = Some ''collect_full_name'' then
        Inr (HandlerResult ''Sure, let's open a new account. What's your full name?'' False False)
      else if step st = Some ''collect_account_type'' then
        Inr (HandlerResult
              (''Thanks. What type of account would you like to open? Options: '' @ choices eng @ ''.'')
              False False)
      else if step st = Some ''collect_initial_deposit'' then
        Inr (HandlerResult ''Got it. How much would you like to deposit to get started?'' False False)
      else if step st = Some ''confirm_submission'' then
        bnd (get_slot st ''account_type'') (\<lambda>t.
        bnd (slot_title eng t) (\<lambda>tt.
        bnd (get_slot st ''full_name'') (\<lambda>n.
        bnd (get_slot st ''initial_deposit'') (\<lambda>d.
        bnd (slot_2f d) (\<lambda>dd.
          Inr (HandlerResult
                (''Open a '' @ tt @ '' account for '' @ slot_str eng n
                 @ '' with an initial deposit of $'' @ dd @ ''.''
                 @ '' Does everything look correct? (yes/no)'')
                False False))))))
      else Inr (HandlerResult ''I'm not sure what to ask next. Let's start over.'' True True))"

definition AO_handle_full_name ::
  "engine \<Rightarrow> string \<Rightarrow> world \<Rightarrow> (py_error + handler_result) \<times> world" where
  "AO_handle_full_name eng utterance w =
     (let full_name = strip utterance
      in if full_name = [] then
           (Inr (HandlerResult ''I didn't catch your name. Could you share your full name?'' False True), w)
         else
           (let w' = set_step ''collect_account_type'' (set_slot ''full_name'' (SStr full_name) w)
            in (AO_prompt eng (state w'), w')))"

definition AO_handle_account_type ::
  "engine \<Rightarrow> string \<Rightarrow> world \<Rightarrow> (py_error + handler_result) \<times> world" where
  "AO_handle_account_type eng utterance w =
     (let account_type = lower (strip utterance)
      in if account_type \<notin> set (account_types eng) then
           (Inr (HandlerResult
                  (''I didn't recognize that account type. Please choose one of the following: ''
                   @ choices eng @ ''.'')
                  False True), w)
         else
           (let w' = set_step ''collect_initial_deposit''
                       (set_slot ''account_type'' (SStr account_type) w)
            in (AO_prompt eng (state w'), w')))"

definition AO_handle_initial_deposit ::
  "engine \<Rightarrow> string \<Rightarrow> world \<Rightarrow> (py_error + handler_result) \<times> world" where
  "AO_handle_initial_deposit eng utterance w =
     (let cleaned = strip (remove_char (CHR '','') utterance)
      in case py_float cleaned of
           None \<Rightarrow>
             (Inr (HandlerResult ''Please provide the deposit amount as a number.'' False True), w)
         | Some amount \<Rightarrow>
             if float_le_zero amount then
               (Inr (HandlerResult ''The deposit amount must be greater than zero. How much would you like to deposit?'' False True), w)
             else
               (let w' = set_step ''confirm_submission''
                           (set_slot ''initial_deposit'' (SNum amount) w)
                in (AO_prompt eng (state w'), w')))"

definition AO_handle_confirmation ::
  "engine \<Rightarrow> string \<Rightarrow> world \<Rightarrow> (py_error + handler_result) \<times> world" where
  "AO_handle_confirmation eng utterance w =
     (let normalized = lower (strip utterance)
      in if normalized \<in> {''yes'', ''y'', ''confirm''} then
           (case bnd (get_slot (state w) ''full_name'') (\<lambda>n.
                 bnd (get_slot (state w) ''account_type'') (\<lambda>t.
                 bnd (get_slot (state w) ''initial_deposit'') (\<lambda>d.
                   Inr (OpenAccount n t d)))) of
              Inl e \<Rightarrow> (Inl e, w)
            | Inr c \<Rightarrow>
                (case call_service eng c w of
                   (Inl e, w') \<Rightarrow> (Inl e, w')
                 | (Inr account_id, w') \<Rightarrow>
                     (Inr (HandlerResult
                            (''All set! Your new account ('' @ account_id
                             @ '') is ready. Is there anything else I can help you with?'')
                            True False), w')))
         else if normalized \<in> {''no'', ''n'', ''cancel''} then
           (Inr (HandlerResult ''No problem, I won't submit that application. Let me know if you need anything else.'' True False), w)
         else
           (Inr (HandlerResult ''Please reply with yes or no so I know whether to submit the application.'' False True), w))"

definition AO_handle ::
  "engine \<Rightarrow> string \<Rightarrow> world \<Rightarrow> (py_error + handler_result) \<times> world" where
  "AO_handle eng utterance w =
     (if step (state w) = Some ''collect_full_name'' then AO_handle_full_name eng utterance w
      else if step (state w) = Some ''collect_account_type'' then
        AO_handle_account_type eng utterance w
      else if step (state w) = Some ''collect_initial_deposit'' then
        AO_handle_initial_deposit eng utterance w
      else if step (state w) = Some ''confirm_submission'' then
        AO_handle_confirmation eng utterance w
      else (Inr (HandlerResult ''Let's restart that account application.'' True True), w))"

subsection \<open>Money transfer\<close>

definition MT_prompt :: "engine \<Rightarrow> conversation_state \<Rightarrow> py_error + handler_result" where
  "MT_prompt eng st =
     (if step st = Some ''collect_from_account'' then
        Inr (HandlerResult ''Sure thing. Which account should the money come from?'' False False)
      else if step st = Some ''collect_to_account'' then
        Inr (HandlerResult ''Thanks. What account are we sending the funds to?'' False False)
      else if step st = Some ''collect_amount'' then
        Inr (HandlerResult ''How much money should I transfer?'' False False)
      else if step st = Some ''confirm_transfer'' then
        bnd (get_slot st ''amount'') (\<lambda>a.
        bnd (slot_2f a) (\<lambda>aa.
        bnd (get_slot st ''from_account'') (\<lambda>f.
        bnd (get_slot st ''to_account'') (\<lambda>t.
          Inr (HandlerResult
                (''Transfer $'' @ aa @ '' from '' @ slot_str eng f @ '' to ''
                 @ slot_str eng t @ ''.'' @ '' Does that look right? (yes/no)'')
                False False)))))
      else Inr (HandlerResult ''I'm not sure how to proceed with that transfer. Let's start again.'' True True))"

definition MT_handle_from_account ::
  "engine \<Rightarrow> string \<Rightarrow> world \<Rightarrow> (py_error + handler_result) \<times> world" where
  "MT_handle_from_account eng utterance w =
     (let account = strip utterance
      in if account = [] then
           (Inr (HandlerResult ''I need the account number to continue. Which account should we use?'' False True), w)
         else
           (let w' = set_step ''collect_to_account'' (set_slot ''from_account'' (SStr account) w)
            in (MT_prompt eng (state w'), w')))"

definition MT_handle_to_account ::
  "engine \<Rightarrow> string \<Rightarrow> world \<Rightarrow> (py_error + handler_result) \<times> world" where
  "MT_handle_to_account eng utterance w =
     (let account = strip utterance
      in if account = [] then
           (Inr (HandlerResult ''Please tell me where to send the money.'' False True), w)
         else if Some (SStr account) = slots (state w) ''from_account'' then
           (Inr (HandlerResult ''The destination must be different from the source account. Where should the funds go?'' False True), w)
         else
           (let w' = set_step ''collect_amount'' (set_slot ''to_account'' (SStr account) w)
            in (MT_prompt eng (state w'), w')))"

definition MT_handle_amount ::
  "engine \<Rightarrow> string \<Rightarrow> world \<Rightarrow> (py_error + handler_result) \<times> world" where
  "MT_handle_amount eng utterance w =
     (let cleaned = strip (remove_char (CHR '','') utterance)
      in case py_float cleaned of
           None \<Rightarrow>
             (Inr (HandlerResult ''I wasn't able to read that dollar amount. How much should I transfer?'' False True), w)
         | Some amount \<Rightarrow>
             if float_le_zero amount then
               (Inr (HandlerResult ''The transfer amount must be greater than zero. How much should I move?'' False True), w)
             else
               (let w' = set_step ''confirm_transfer'' (set_slot ''amount'' (SNum amount) w)
                in (MT_prompt eng (state w'), w')))"

definition MT_handle_confirmation ::
  "engine \<Rightarrow> string \<Rightarrow> world \<Rightarrow> (py_error + handler_result) \<times> world" where
  "MT_handle_confirmation eng utterance w =
     (let normalized = lower (strip utterance)
      in if normalized \<in> {''yes'', ''y'', ''confirm''} then
           (case bnd (get_slot (state w) ''from_account'') (\<lambda>f.
                 bnd (get_slot (state w) ''to_account'') (\<lambda>t.
                 bnd (get_slot (state w) ''amount'') (\<lambda>a.
                   Inr (Transfer f t a)))) of
              Inl e \<Rightarrow> (Inl e, w)
            | Inr c \<Rightarrow>
                (case call_service eng c w of
                   (Inl e, w') \<Rightarrow> (Inl e, w')
                 | (Inr transfer_id, w') \<Rightarrow>
                     (Inr (HandlerResult
                            (''Done! Transfer '' @ transfer_id
                             @ '' is complete. Anything else I can help with?'')
                            True False), w')))
         else if normalized \<in> {''no'', ''n'', ''cancel''} then
           (Inr (HandlerResult ''Okay, I canceled that transfer. Let me know if you change your mind.'' True False), w)
         else
           (Inr (HandlerResult ''Please respond with yes or no so I can complete the transfer.'' False True), w))"

definition MT_handle ::
  "engine \<Rightarrow> string \<Rightarrow> world \<Rightarrow> (py_error + handler_result) \<times> world" where
  "MT_handle eng utterance w =
     (if step (state w) = Some ''collect_from_account'' then
        MT_handle_from_account eng utterance w
      else if step (state w) = Some ''collect_to_account'' then
        MT_handle_to_account eng utterance w
      else if step (state w) = Some ''collect_amount'' then MT_handle_amount eng utterance w
      else if step (state w) = Some ''confirm_transfer'' then
        MT_handle_confirmation eng utterance w
      else (Inr (HandlerResult ''Let's cancel that transfer for now.'' True True), w))"

subsection \<open>Advisor messaging\<close>

definition AD_prompt :: "engine \<Rightarrow> conversation_state \<Rightarrow> py_error + handler_result" where
  "AD_prompt eng st =
     (if step st = Some ''collect_topic'' then
        Inr (HandlerResult ''Happy to help. What would you like to discuss with your advisor?'' False False)
      else if step st = Some ''collect_message'' then
        Inr (HandlerResult ''Great. What details should I include in the secure message?'' False False)
      else if step st = Some ''confirm_message'' then
        bnd (get_slot st ''message'') (\<lambda>preview.
        bnd (get_slot st ''topic'') (\<lambda>topic.
          Inr (HandlerResult
                (''I'll send your advisor a message about '' @ [CHR 0x27] @ slot_str eng topic
                 @ [CHR 0x27] @ '' saying: '' @ [CHR 0x27] @ slot_str eng preview
                 @ [CHR 0x27] @ ''. Shall I send it now? (yes/no)'')
                False False)))
      else Inr (HandlerResult ''I ran into an issue preparing that advisor message. Let's start over.'' True True))"

definition AD_handle_topic ::
  "engine \<Rightarrow> string \<Rightarrow> world \<Rightarrow> (py_error + handler_result) \<times> world" where
  "AD_handle_topic eng utterance w =
     (let topic = strip utterance
      in if topic = [] then
           (Inr (HandlerResult ''Please share a short topic so your advisor knows what to expect.'' False True), w)
         else
           (let w' = set_step ''collect_message'' (set_slot ''topic'' (SStr topic) w)
            in (AD_prompt eng (state w'), w')))"

definition AD_handle_message ::
  "engine \<Rightarrow> string \<Rightarrow> world \<Rightarrow> (py_error + handler_result) \<times> world" where
  "AD_handle_message eng utterance w =
     (let message = strip utterance
      in if message = [] then
           (Inr (HandlerResult ''I'll need a bit more detail to send a helpful message. What should I include?'' False True), w)
         else
           (let w' = set_step ''confirm_message'' (set_slot ''message'' (SStr message) w)
            in (AD_prompt eng (state w'), w')))"

definition AD_handle_confirmation ::
  "engine \<Rightarrow> string \<Rightarrow> world \<Rightarrow> (py_error + handler_result) \<times> world" where
  "AD_handle_confirmation eng utterance w =
     (let normalized = lower (strip utterance)
      in if normalized \<in> {''yes'', ''y'', ''send''} then
           (case bnd (get_slot (state w) ''topic'') (\<lambda>t.
                 bnd (get_slot (state w) ''message'') (\<lambda>m.
                   Inr (SendMessage t m))) of
              Inl e \<Rightarrow> (Inl e, w)
            | Inr c \<Rightarrow>
                (case call_service eng c w of
                   (Inl e, w') \<Rightarrow> (Inl e, w')
                 | (Inr ticket_id, w') \<Rightarrow>
                     (Inr (HandlerResult
                            (''All right, I've delivered that message. Your advisor will reply under ticket ''
                             @ ticket_id @ ''.'')
                            True False), w')))
         else if normalized \<in> {''no'', ''n'', ''cancel''} then
           (Inr (HandlerResult ''Okay, I won't send that. Let me know if you want to try again.'' True False), w)
         else
           (Inr (HandlerResult ''Please answer yes or no so I know whether to send the message.'' False True), w))"

definition AD_handle ::
  "engine \<Rightarrow> string \<Rightarrow> world \<Rightarrow> (py_error + handler_result) \<times> world" where
  "AD_handle eng utterance w =
     (if step (state w) = Some ''collect_topic'' then AD_handle_topic eng utterance w
      else if step (state w) = Some ''collect_message'' then AD_handle_message eng utterance w
      else if step (state w) = Some ''confirm_message'' then
        AD_handle_confirmation eng utterance w
      else (Inr (HandlerResult ''Let's try composing that message again later.'' True True), w))"

subsection \<open>The methods of \<^verbatim>\<open>BaseHandler\<close>, by handler\<close>

fun prompt_for_current_step ::
  "engine \<Rightarrow> handler_id \<Rightarrow> conversation_state \<Rightarrow> py_error + handler_result" where
  "prompt_for_current_step eng AccountOpening st = AO_prompt eng st"
| "prompt_for_current_step eng MoneyTransfer st = MT_prompt eng st"
| "prompt_for_current_step eng AdvisorMessaging st = AD_prompt eng st"

fun handle ::
  "engine \<Rightarrow> handler_id \<Rightarrow> string \<Rightarrow> world \<Rightarrow> (py_error + handler_result) \<times> world" where
  "handle eng AccountOpening utterance w = AO_handle eng utterance w"
| "handle eng MoneyTransfer utterance w = MT_handle eng utterance w"
| "handle eng AdvisorMessaging utterance w = AD_handle eng utterance w"

definition start :: "engine \<Rightarrow> handler_id \<Rightarrow> world \<Rightarrow> (py_error + handler_result) \<times> world" where
  "start eng h w =
     (let w' = w\<lparr>state := \<lparr>intent_name = Some (h_intent_name h),
                             handler_key = Some (h_handler_key h),
                             step = Some (first_step h),
                             slots = Map.empty\<rparr>\<rparr>
      in (prompt_for_current_step eng h (state w'), w'))"

section \<open>Engine (engine.py)\<close>

definition cancel_keywords :: "string set" where
  "cancel_keywords = {''cancel'', ''stop'', ''start over'', ''nevermind'', ''never mind''}"

definition cancel_reply :: string where
  "cancel_reply = ''Okay, I've canceled the current request. How else can I help?''"

text \<open>The dictionary built by \<^verbatim>\<open>_build_handlers\<close>.\<close>

definition handlers_get :: "string \<Rightarrow> handler_id option" where
  "handlers_get key =
     (if key = ''account_opening'' then Some AccountOpening
      else if key = ''money_transfer'' then Some MoneyTransfer
      else if key = ''advisor_message'' then Some AdvisorMessaging
      else None)"

definition no_handler_for :: "string \<Rightarrow> py_error" where
  "no_handler_for key =
     HandlerNotFoundError (''No handler registered for key '' @ [CHR 0x27] @ key @ [CHR 0x27])"

definition route_to_handler ::
  "engine \<Rightarrow> string \<Rightarrow> world \<Rightarrow> (py_error + handler_result) \<times> world" where
  "route_to_handler eng utterance w =
     (if \<not> active (state w) then
        (case match (intents eng) utterance of
           None \<Rightarrow>
             (Inr (HandlerResult ''I'm not sure how to help with that just yet, but I can open accounts, transfer funds, or message your advisor.'' False True), w)
         | Some intent \<Rightarrow>
             (case handlers_get (handler intent) of
                None \<Rightarrow> (Inl (no_handler_for (handler intent)), w)
              | Some h \<Rightarrow> start eng h w))
      else
        (case handlers_get (case handler_key (state w) of None \<Rightarrow> [] | Some k \<Rightarrow> k) of
           None \<Rightarrow>
             (Inl (HandlerNotFoundError
                    (''Active handler 'None' is not registered'')),
              reset_state w)
         | Some h \<Rightarrow> handle eng h utterance w))"

definition maybe_reroute ::
  "engine \<Rightarrow> string \<Rightarrow> world \<Rightarrow> (py_error + string option) \<times> world" where
  "maybe_reroute eng utterance w =
     (case match (intents eng) utterance of
        None \<Rightarrow> (Inr None, w)
      | Some intent \<Rightarrow>
          if Some (handler intent) \<noteq> handler_key (state w) then
            (case handlers_get (handler intent) of
               None \<Rightarrow> (Inl (no_handler_for (handler intent)), w)
             | Some h \<Rightarrow>
                 (case start eng h (reset_state w) of
                    (Inl e, w') \<Rightarrow> (Inl e, w')
                  | (Inr result, w') \<Rightarrow>
                      (Inr (Some (reply result)),
                       if completed result then reset_state w' else w')))
          else (Inr None, w))"

text \<open>
  \<^verbatim>\<open>handle_message\<close>: the reply, or the exception raised, and the world after the turn.
\<close>

definition handle_message :: "engine \<Rightarrow> string \<Rightarrow> world \<Rightarrow> (py_error + string) \<times> world" where
  "handle_message eng utterance w =
     (let normalized = strip utterance
      in if normalized = [] then (Inr ''Could you share more detail so I can help?'', w)
         else if lower normalized \<in> cancel_keywords then (Inr cancel_reply, reset_state w)
         else
           (case (if active (state w) then maybe_reroute eng utterance w else (Inr None, w)) of
              (Inl e, w1) \<Rightarrow> (Inl e, w1)
            | (Inr (Some rerouted), w1) \<Rightarrow> (Inr rerouted, w1)
            | (Inr None, w1) \<Rightarrow>
                (case route_to_handler eng utterance w1 of
                   (Inl e, w2) \<Rightarrow> (Inl e, w2)
                 | (Inr result, w2) \<Rightarrow>
                     (Inr (reply result),
                      if completed result then reset_state w2 else w2))))"

text \<open>A conversation: the turns in order; a turn that raises leaves its world behind.\<close>

fun run :: "engine \<Rightarrow> string list \<Rightarrow> world \<Rightarrow> world" where
  "run eng [] w = w"
| "run eng (u # us) w = run eng us (snd (handle_message eng u w))"

definition initial_world :: world where
  "initial_world =
     \<lparr>state = \<lparr>intent_name = None, handler_key = None, step = None, slots = Map.empty\<rparr>,
      calls = []\<rparr>"

section \<open>Notions used to state the properties\<close>

text \<open>What \<^verbatim>\<open>handle_message\<close> does with a handler's outcome (its last three lines).\<close>

definition finish_turn ::
  "(py_error + handler_result) \<times> world \<Rightarrow> (py_error + string) \<times> world" where
  "finish_turn out =
     (case out of
        (Inl e, w) \<Rightarrow> (Inl e, w)
      | (Inr result, w) \<Rightarrow> (Inr (reply result), if completed result then reset_state w else w))"

text \<open>The prompt of each flow's first step, as its \<^verbatim>\<open>_prompt_for_current_step\<close> words it.\<close>

fun first_prompt :: "handler_id \<Rightarrow> string" where
  "first_prompt AccountOpening = ''Sure, let's open a new account. What's your full name?''"
| "first_prompt MoneyTransfer = ''Sure thing. Which account should the money come from?''"
| "first_prompt AdvisorMessaging =
     ''Happy to help. What would you like to discuss with your advisor?''"

text \<open>The state a flow starts in.\<close>

definition started :: "handler_id \<Rightarrow> conversation_state" where
  "started h =
     \<lparr>intent_name = Some (h_intent_name h), handler_key = Some (h_handler_key h),
      step = Some (first_step h), slots = Map.empty\<rparr>"

text \<open>The confirm step of each flow, and the answers its handler takes as a yes or a no.\<close>

fun confirm_step :: "handler_id \<Rightarrow> string" where
  "confirm_step AccountOpening = ''confirm_submission''"
| "confirm_step MoneyTransfer = ''confirm_transfer''"
| "confirm_step AdvisorMessaging = ''confirm_message''"

fun affirmative :: "handler_id \<Rightarrow> string set" where
  "affirmative AccountOpening = {''yes'', ''y'', ''confirm''}"
| "affirmative MoneyTransfer = {''yes'', ''y'', ''confirm''}"
| "affirmative AdvisorMessaging = {''yes'', ''y'', ''send''}"

definition negative :: "string set" where
  "negative = {''no'', ''n'', ''cancel''}"

fun decline_reply :: "handler_id \<Rightarrow> string" where
  "decline_reply AccountOpening =
     ''No problem, I won't submit that application. Let me know if you need anything else.''"
| "decline_reply MoneyTransfer =
     ''Okay, I canceled that transfer. Let me know if you change your mind.''"
| "decline_reply AdvisorMessaging =
     ''Okay, I won't send that. Let me know if you want to try again.''"

text \<open>The reply of each flow after its service returned the identifier \<open>ident\<close>.\<close>

fun success_reply :: "handler_id \<Rightarrow> string \<Rightarrow> string" where
  "success_reply AccountOpening ident =
     ''All set! Your new account ('' @ ident
     @ '') is ready. Is there anything else I can help you with?''"
| "success_reply MoneyTransfer ident =
     ''Done! Transfer '' @ ident @ '' is complete. Anything else I can help with?''"
| "success_reply AdvisorMessaging ident =
     ''All right, I've delivered that message. Your advisor will reply under ticket ''
     @ ident @ ''.''"

text \<open>The service call a flow commits with, read from the slots collected.\<close>

fun commit_call :: "handler_id \<Rightarrow> conversation_state \<Rightarrow> svc_call option" where
  "commit_call AccountOpening st =
     (case (slots st ''full_name'', slots st ''account_type'', slots st ''initial_deposit'') of
        (Some n, Some t, Some d) \<Rightarrow> Some (OpenAccount n t d)
      | _ \<Rightarrow> None)"
| "commit_call MoneyTransfer st =
     (case (slots st ''from_account'', slots st ''to_account'', slots st ''amount'') of
        (Some f, Some t, Some a) \<Rightarrow> Some (Transfer f t a)
      | _ \<Rightarrow> None)"
| "commit_call AdvisorMessaging st =
     (case (slots st ''topic'', slots st ''message'') of
        (Some t, Some m) \<Rightarrow> Some (SendMessage t m)
      | _ \<Rightarrow> None)"

text \<open>
  The reroute check lets the turn through to the active handler: the router finds no
  intent, or one whose handler is the active one.
\<close>

definition stays_in_flow :: "engine \<Rightarrow> string \<Rightarrow> world \<Rightarrow> bool" where
  "stays_in_flow eng u w =
     (case match (intents eng) u of
        None \<Rightarrow> True
      | Some i \<Rightarrow> Some (handler i) = handler_key (state w))"

text \<open>The three flow fields are set together or not at all.\<close>

definition consistent :: "conversation_state \<Rightarrow> bool" where
  "consistent st =
     (if intent_name st = None then handler_key st = None \<and> step st = None
      else handler_key st \<noteq> None \<and> step st \<noteq> None)"

section \<open>Sample inputs\<close>

text \<open>\<^verbatim>\<open>str.title()\<close> on ASCII strings: a letter after a non-letter becomes a capital.\<close>

definition is_ascii_letter :: "char \<Rightarrow> bool" where
  "is_ascii_letter c =
     (let n = (of_char c :: nat) in (65 \<le> n \<and> n \<le> 90) \<or> (97 \<le> n \<and> n \<le> 122))"

definition upper_ascii :: "char \<Rightarrow> char" where
  "upper_ascii c =
     (let n = (of_char c :: nat) in if 97 \<le> n \<and> n \<le> 122 then char_of (n - 32) else c)"

fun title_from :: "bool \<Rightarrow> string \<Rightarrow> string" where
  "title_from prev [] = []"
| "title_from prev (c # cs) =
     (if prev then lower_char c else upper_ascii c) # title_from (is_ascii_letter c) cs"

definition ascii_title :: "string \<Rightarrow> string" where
  "ascii_title s = title_from False s"

text \<open>
  \<^verbatim>\<open>str()\<close> of a float that is a NaN, an infinity or a whole number below \<open>10 ^ 16\<close>;
  the sample conversations print no float this way.
\<close>

definition whole_float_repr :: "pyfloat \<Rightarrow> string" where
  "whole_float_repr a =
     (case a of
        Fin v \<Rightarrow> (if v < 0 then ''-'' else []) @ show_nat (nat \<lfloor>\<bar>v\<bar>\<rfloor>) @ ''.0''
      | PInf \<Rightarrow> ''inf''
      | NInf \<Rightarrow> ''-inf''
      | NaN \<Rightarrow> ''nan'')"

text \<open>A catalog with the three intents of the tests, and an engine on the in-memory services.\<close>

definition sample_intents :: "intent_config list" where
  "sample_intents =
     [\<lparr>name = ''account_opening'', handler = ''account_opening'',
       keywords_of = [''open account'', ''new account'', ''open a new account''],
       entities = [''account_type'' \<mapsto> [''checking'', ''savings'']]\<rparr>,
      \<lparr>name = ''money_transfer'', handler = ''money_transfer'',
       keywords_of = [''transfer'', ''send money''],
       entities = Map.empty\<rparr>,
      \<lparr>name = ''secure_advisor_message'', handler = ''advisor_message'',
       keywords_of = [''advisor''],
       entities = Map.empty\<rparr>]"

definition sample_engine :: engine where
  "sample_engine =
     \<lparr>intents = sample_intents, respond = in_memory, title = ascii_title,
      float_repr = whole_float_repr\<rparr>"

text \<open>
  The same catalog with \<open>send\<close> as a further keyword of the transfer intent, and its engine.
\<close>

definition send_intents :: "intent_config list" where
  "send_intents =
     [\<lparr>name = ''account_opening'', handler = ''account_opening'',
       keywords_of = [''open account'', ''new account'', ''open a new account''],
       entities = [''account_type'' \<mapsto> [''checking'', ''savings'']]\<rparr>,
      \<lparr>name = ''money_transfer'', handler = ''money_transfer'',
       keywords_of = [''transfer'', ''send''],
       entities = Map.empty\<rparr>,
      \<lparr>name = ''secure_advisor_message'', handler = ''advisor_message'',
       keywords_of = [''advisor''],
       entities = Map.empty\<rparr>]"

definition send_engine :: engine where
  "send_engine =
     \<lparr>intents = send_intents, respond = in_memory, title = ascii_title,
      float_repr = whole_float_repr\<rparr>"

text \<open>A catalog whose only keyword is a single space.\<close>

definition blank_intent :: intent_config where
  "blank_intent =
     \<lparr>name = ''money_transfer'', handler = ''money_transfer'', keywords_of = ['' ''],
      entities = Map.empty\<rparr>"

text \<open>A conversation inside a flow: the handler, the step reached and the slots filled.\<close>

definition world_at :: "handler_id \<Rightarrow> string \<Rightarrow> (string \<times> slot_value) list \<Rightarrow> world" where
  "world_at h s kvs =
     \<lparr>state = \<lparr>intent_name = Some (h_intent_name h), handler_key = Some (h_handler_key h),
                step = Some s, slots = map_of kvs\<rparr>,
      calls = []\<rparr>"

definition ao_name_world :: world where
  "ao_name_world = world_at AccountOpening ''collect_full_name'' []"

definition ao_deposit_world :: world where
  "ao_deposit_world =
     world_at AccountOpening ''collect_initial_deposit''
       [(''full_name'', SStr ''Alice Johnson''), (''account_type'', SStr ''checking'')]"

definition ao_confirm_world :: world where
  "ao_confirm_world =
     world_at AccountOpening ''confirm_submission''
       [(''full_name'', SStr ''Alice Johnson''), (''account_type'', SStr ''checking''),
        (''initial_deposit'', SNum (Fin 500))]"

definition mt_to_world :: world where
  "mt_to_world =
     world_at MoneyTransfer ''collect_to_account'' [(''from_account'', SStr ''CHK-001'')]"

definition mt_amount_world :: world where
  "mt_amount_world =
     world_at MoneyTransfer ''collect_amount''
       [(''from_account'', SStr ''CHK-001''), (''to_account'', SStr ''SAV-002'')]"

definition mt_confirm_world :: world where
  "mt_confirm_world =
     world_at MoneyTransfer ''confirm_transfer''
       [(''from_account'', SStr ''CHK-001''), (''to_account'', SStr ''SAV-002''),
        (''amount'', SNum (Fin (301 / 4)))]"

definition ad_confirm_world :: world where
  "ad_confirm_world =
     world_at AdvisorMessaging ''confirm_message''
       [(''topic'', SStr ''Retirement planning''),
        (''message'', SStr ''I have a question about contribution limits.'')]"

section \<open>Facts about strings\<close>

lemma contains_sublist: "contains k s = sublist k s"
  by (induction s) (auto simp: sublist_Cons_right)

lemma any_keyword_in_iff: "any_keyword_in ks s = (\<exists>k\<in>set ks. sublist k s)"
  by (induction ks) (auto simp: contains_sublist)

lemma first_match_find:
  "first_match cat s = find (\<lambda>i. \<exists>k\<in>set (keywords_of i). sublist k s) cat"
  by (induction cat) (auto simp: any_keyword_in_iff)

lemma strip_Nil_iff: "strip s = [] \<longleftrightarrow> (\<forall>c\<in>set s. is_space c)"
proof
  assume "strip s = []"
  then have "\<forall>c\<in>set (dropWhile is_space s). is_space c"
    by (simp add: strip_def)
  then have "dropWhile is_space s = []"
    by (metis hd_dropWhile hd_in_set)
  then show "\<forall>c\<in>set s. is_space c"
    by simp
next
  assume "\<forall>c\<in>set s. is_space c"
  then show "strip s = []"
    by (auto simp: strip_def dest: set_dropWhileD)
qed

lemma strip_Nil [simp]: "strip [] = []"
  by (simp add: strip_def)

lemma lower_Nil [simp]: "lower [] = []"
  by (simp add: lower_def)

lemma lower_eq_Nil [simp]: "lower s = [] \<longleftrightarrow> s = []"
  by (simp add: lower_def)

lemma of_char_less_256: "(of_char c :: nat) < 256"
  by (cases c) (simp add: of_char_def horner_sum_foldr)

lemma is_space_lower_char: "is_space (lower_char c) = is_space c"
proof -
  have "(of_char c :: nat) < 256"
    by (rule of_char_less_256)
  then show ?thesis
    by (auto simp: is_space_def lower_char_def Let_def)
qed

lemma strip_lower_Nil_iff: "strip (lower s) = [] \<longleftrightarrow> strip s = []"
  by (simp add: strip_Nil_iff lower_def is_space_lower_char)

lemma sublist_all_space:
  "sublist k s \<Longrightarrow> strip s = [] \<Longrightarrow> strip k = []"
  by (auto simp: strip_Nil_iff sublist_def)

section \<open>The router\<close>

text \<open>
  Claim C5, as the code has it. \<^verbatim>\<open>IntentRouter.match\<close> returns no intent for the empty
  utterance; for any other utterance, one of white space only included, it returns the
  first intent of the catalog, in catalog order, one of whose keywords occurs in the
  lowercased utterance, and none when there is no such intent. An utterance of white
  space only therefore gets no intent when every keyword of the catalog has a character
  that is not white space. The result depends on the catalog and the utterance alone:
  \<open>match\<close> is a function of the two and changes no state.
\<close>

theorem match_first_intent_with_keyword:
  "match cat u =
     (if u = [] then None
      else find (\<lambda>i. \<exists>k\<in>set (keywords_of i). sublist k (lower u)) cat)
   \<and> ((\<forall>i\<in>set cat. \<forall>k\<in>set (keywords_of i). strip k \<noteq> []) \<longrightarrow> strip u = []
        \<longrightarrow> match cat u = None)"
proof
  show first: "match cat u =
     (if u = [] then None
      else find (\<lambda>i. \<exists>k\<in>set (keywords_of i). sublist k (lower u)) cat)"
    by (simp add: match_def first_match_find)
  show "(\<forall>i\<in>set cat. \<forall>k\<in>set (keywords_of i). strip k \<noteq> []) \<longrightarrow> strip u = []
        \<longrightarrow> match cat u = None"
  proof (intro impI)
    assume keys: "\<forall>i\<in>set cat. \<forall>k\<in>set (keywords_of i). strip k \<noteq> []"
      and blank: "strip u = []"
    have "strip (lower u) = []"
      using blank by (simp add: strip_lower_Nil_iff)
    then have "\<not> (\<exists>i\<in>set cat. \<exists>k\<in>set (keywords_of i). sublist k (lower u))"
      using keys sublist_all_space by blast
    then have "find (\<lambda>i. \<exists>k\<in>set (keywords_of i). sublist k (lower u)) cat = None"
      by (simp add: find_None_iff)
    then show "match cat u = None"
      using first by simp
  qed
qed

text \<open>
  The theorem used on the sample catalog: three blanks match nothing, and the first
  intent with a keyword in ``Can you transfer money for me?'' is the transfer intent.
\<close>

theorem match_first_intent_with_keyword_witness:
  "list_all (\<lambda>i. list_all (\<lambda>k. strip k \<noteq> []) (keywords_of i)) sample_intents
   \<and> strip ''   '' = []
   \<and> match sample_intents ''   '' = None
   \<and> match sample_intents ''Can you transfer money for me?'' = Some (sample_intents ! 1)"
proof -
  have keys: "\<forall>i\<in>set sample_intents. \<forall>k\<in>set (keywords_of i). strip k \<noteq> []"
    by (simp add: sample_intents_def strip_def is_space_def)
  have blank: "strip ''   '' = []"
    by (simp add: strip_def is_space_def)
  have hit: "match sample_intents ''Can you transfer money for me?'' = Some (sample_intents ! 1)"
    by (simp add: match_def sample_intents_def lower_def lower_char_def)
  have miss: "match sample_intents ''   '' = None"
    using keys blank match_first_intent_with_keyword [of sample_intents "''   ''"]
    by blast
  show ?thesis
    using keys blank hit miss by (simp add: list_all_iff)
qed

text \<open>
  Claim C5 as the specification words it fails: with a keyword that is a single space,
  the utterance of one space is of white space only and still gets an intent.
\<close>

theorem match_blank_utterance_counterexample:
  "strip '' '' = [] \<and> match [blank_intent] '' '' = Some blank_intent"
  by (simp add: strip_def is_space_def match_def blank_intent_def lower_def lower_char_def)

section \<open>Starting a flow\<close>

text \<open>
  Claim C8. For each of the three handlers and every prior world, whatever flow, step
  and slots it holds, \<^verbatim>\<open>start\<close> sets \<open>intent_name\<close> and \<open>handler_key\<close> to the handler's
  own, sets \<open>step\<close> to the first step of its flow, empties the slots, and returns the
  prompt of that first step, neither completed nor an error. No service is called.
\<close>

theorem start_resets_to_first_step:
  "start eng h w =
     (Inr (HandlerResult (first_prompt h) False False),
      w\<lparr>state := \<lparr>intent_name = Some (h_intent_name h), handler_key = Some (h_handler_key h),
                    step = Some (first_step h), slots = Map.empty\<rparr>\<rparr>)"
  by (cases h) (simp_all add: start_def AO_prompt_def MT_prompt_def AD_prompt_def)

section \<open>Cancelling\<close>

lemma reset_state_simps [simp]:
  "calls (reset_state w) = calls w"
  "state (reset_state w) =
     \<lparr>intent_name = None, handler_key = None, step = None, slots = Map.empty\<rparr>"
  by (simp_all add: reset_state_def reset_def)

lemma handle_message_cancel:
  assumes "lower (strip u) \<in> cancel_keywords"
  shows "handle_message eng u w = (Inr cancel_reply, reset_state w)"
proof -
  have "strip u \<noteq> []"
    using assms by (auto simp: cancel_keywords_def)
  then show ?thesis
    using assms by (simp add: handle_message_def)
qed

lemma confirmation_negative:
  assumes "step (state w) = Some (confirm_step h)" "lower (strip u) \<in> negative"
  shows "handle eng h u w = (Inr (HandlerResult (decline_reply h) True False), w)"
proof (cases h)
  case AccountOpening
  then show ?thesis
    using assms by (auto simp: AO_handle_def AO_handle_confirmation_def negative_def)
next
  case MoneyTransfer
  then show ?thesis
    using assms by (auto simp: MT_handle_def MT_handle_confirmation_def negative_def)
next
  case AdvisorMessaging
  then show ?thesis
    using assms by (auto simp: AD_handle_def AD_handle_confirmation_def negative_def)
qed

text \<open>
  Claim C4. In every world (any flow, any step, or no flow at all), an utterance whose
  trimmed form is, without regard to case, one of the five cancel phrases makes
  \<^verbatim>\<open>handle_message\<close> reset the state to its cleared defaults and return the cancellation
  acknowledgment.
\<close>

theorem cancel_phrase_resets_state:
  assumes "lower (strip u) \<in> {''cancel'', ''stop'', ''start over'', ''nevermind'', ''never mind''}"
  shows "handle_message eng u w =
     (Inr ''Okay, I've canceled the current request. How else can I help?'',
      w\<lparr>state := \<lparr>intent_name = None, handler_key = None, step = None,
                    slots = Map.empty\<rparr>\<rparr>)"
proof -
  have "lower (strip u) \<in> cancel_keywords"
    using assms by (simp add: cancel_keywords_def)
  then have "handle_message eng u w = (Inr cancel_reply, reset_state w)"
    by (rule handle_message_cancel)
  then show ?thesis
    by (simp add: cancel_reply_def reset_state_def reset_def)
qed

text \<open>The theorem at the confirm step of an account opening, with a padded phrase.\<close>

theorem cancel_phrase_resets_state_witness:
  "lower (strip ''  Never Mind '') = ''never mind''
   \<and> handle_message sample_engine ''  Never Mind '' ao_confirm_world =
       (Inr ''Okay, I've canceled the current request. How else can I help?'', initial_world)"
proof -
  have h: "lower (strip ''  Never Mind '') = ''never mind''"
    by code_simp
  then have "lower (strip ''  Never Mind '')
      \<in> {''cancel'', ''stop'', ''start over'', ''nevermind'', ''never mind''}"
    by simp
  from cancel_phrase_resets_state [OF this, of sample_engine ao_confirm_world] h
  show ?thesis
    by (simp add: ao_confirm_world_def world_at_def initial_world_def)
qed

text \<open>
  Claim C10. An utterance whose trimmed lowercased form is \<open>cancel\<close> is answered by the
  engine's cancel check, in every state: the reply is the engine's acknowledgment, the
  state is reset and the list of service calls is as before. At a confirm step the
  handler itself would have taken the word as a no and answered with its decline reply,
  which is a different text; through \<^verbatim>\<open>handle_message\<close> that branch is not reached.
\<close>

theorem cancel_word_stops_at_engine:
  assumes "lower (strip u) = ''cancel''"
  shows "handle_message eng u w = (Inr cancel_reply, reset_state w)
     \<and> calls (snd (handle_message eng u w)) = calls w
     \<and> (step (state w) = Some (confirm_step h) \<longrightarrow>
          handle eng h u w = (Inr (HandlerResult (decline_reply h) True False), w))
     \<and> decline_reply h \<noteq> cancel_reply"
proof -
  have eng: "handle_message eng u w = (Inr cancel_reply, reset_state w)"
    using assms by (intro handle_message_cancel) (simp add: cancel_keywords_def)
  have neg: "lower (strip u) \<in> negative"
    using assms by (simp add: negative_def)
  have differ: "decline_reply h \<noteq> cancel_reply"
    by (cases h) (simp_all add: cancel_reply_def)
  show ?thesis
    using eng differ confirmation_negative [OF _ neg] by simp
qed

text \<open>The theorem at the confirm step of a transfer.\<close>

theorem cancel_word_stops_at_engine_witness:
  "lower (strip ''Cancel'') = ''cancel''
   \<and> handle_message sample_engine ''Cancel'' mt_confirm_world = (Inr cancel_reply, initial_world)
   \<and> handle sample_engine MoneyTransfer ''Cancel'' mt_confirm_world =
       (Inr (HandlerResult ''Okay, I canceled that transfer. Let me know if you change your mind.''
              True False), mt_confirm_world)"
proof -
  have h: "lower (strip ''Cancel'') = ''cancel''"
    by code_simp
  have s: "step (state mt_confirm_world) = Some (confirm_step MoneyTransfer)"
    by (simp add: mt_confirm_world_def world_at_def)
  have r: "reset_state mt_confirm_world = initial_world"
    by (simp add: mt_confirm_world_def world_at_def initial_world_def reset_state_def reset_def)
  from cancel_word_stops_at_engine [OF h, of sample_engine mt_confirm_world MoneyTransfer] h s r
  show ?thesis
    by simp
qed

section \<open>Confirming\<close>

lemma confirmation_affirmative:
  assumes "step (state w) = Some (confirm_step h)"
    and "lower (strip u) \<in> affirmative h"
    and "commit_call h (state w) = Some c"
    and "respond eng (calls w) c = Inr ident"
  shows "handle eng h u w =
     (Inr (HandlerResult (success_reply h ident) True False), w\<lparr>calls := calls w @ [c]\<rparr>)"
proof (cases h)
  case AccountOpening
  then show ?thesis
    using assms
    by (auto simp: AO_handle_def AO_handle_confirmation_def get_slot_def bnd_def
        call_service_def split: option.splits)
next
  case MoneyTransfer
  then show ?thesis
    using assms
    by (auto simp: MT_handle_def MT_handle_confirmation_def get_slot_def bnd_def
        call_service_def split: option.splits)
next
  case AdvisorMessaging
  then show ?thesis
    using assms
    by (auto simp: AD_handle_def AD_handle_confirmation_def get_slot_def bnd_def
        call_service_def split: option.splits)
qed




section \<open>The destination of a transfer\<close>

lemma strip_head: "strip s \<noteq> [] \<Longrightarrow> \<not> is_space (hd (strip s))"
proof -
  assume ne: "strip s \<noteq> []"
  define t where "t = dropWhile is_space s"
  define r where "r = dropWhile is_space (rev t)"
  have s: "strip s = rev r"
    by (simp add: strip_def t_def r_def)
  have "r \<noteq> []"
    using ne s by simp
  obtain ys where ys: "rev t = ys @ r"
    unfolding r_def by (metis takeWhile_dropWhile_id)
  have "last r = last (rev t)"
    using ys \<open>r \<noteq> []\<close> by simp
  moreover have "t \<noteq> []"
    using ys \<open>r \<noteq> []\<close> by auto
  ultimately have "last r = hd t"
    by (simp add: last_rev)
  moreover have "\<not> is_space (hd t)"
    using \<open>t \<noteq> []\<close> unfolding t_def by (rule hd_dropWhile)
  ultimately show ?thesis
    using s \<open>r \<noteq> []\<close> by (simp add: hd_rev)
qed

lemma strip_strip: "strip (strip s) = strip s"
proof -
  have a: "dropWhile is_space (strip s) = strip s"
    using strip_head [of s] by (cases "strip s") auto
  have "strip (strip s) = rev (dropWhile is_space (rev (strip s)))"
    by (simp add: strip_def [of "strip s"] a)
  also have "rev (strip s) = dropWhile is_space (rev (dropWhile is_space s))"
    by (simp add: strip_def)
  also have "rev (dropWhile is_space \<dots>) = strip s"
    by (simp add: strip_def)
  finally show ?thesis .
qed

lemma from_account_collected_trimmed:
  assumes "strip x \<noteq> []"
  shows "slots (state (snd (MT_handle_from_account eng x w))) ''from_account''
           = Some (SStr (strip x))
     \<and> strip (strip x) = strip x
     \<and> step (state (snd (MT_handle_from_account eng x w))) = Some ''collect_to_account''"
  using assms
  by (simp add: MT_handle_from_account_def Let_def set_slot_def set_step_def strip_strip)

text \<open>
  Claim C7. At the step \<open>collect_to_account\<close> of a transfer, whatever account \<open>a\<close> was
  collected as the source (a collected value is trimmed and not empty, see
  \<open>from_account_collected_trimmed\<close>), an input equal to \<open>a\<close>, as typed or after
  trimming, is rejected with the error reply of its own, the step and the slots stay
  as they are, and this holds for every content and casing of \<open>a\<close>.
\<close>

theorem transfer_to_source_account_rejected:
  assumes "step (state w) = Some ''collect_to_account''"
    and "slots (state w) ''from_account'' = Some (SStr a)"
    and "a \<noteq> []"
    and "strip a = a"
    and "u = a \<or> strip u = a"
  shows "handle eng MoneyTransfer u w =
     (Inr (HandlerResult
            (''The destination must be different from the source account.''
             @ '' Where should the funds go?'') False True), w)"
proof -
  have "strip u = a"
    using assms(4,5) by auto
  then show ?thesis
    using assms(1,2,3) by (simp add: MT_handle_def MT_handle_to_account_def)
qed

text \<open>The theorem for the account \<open>CHK-001\<close> given twice.\<close>

theorem transfer_to_source_account_rejected_witness:
  "strip ''CHK-001'' = ''CHK-001''
   \<and> handle sample_engine MoneyTransfer ''CHK-001'' mt_to_world =
       (Inr (HandlerResult
              (''The destination must be different from the source account.''
               @ '' Where should the funds go?'') False True), mt_to_world)
   \<and> step (state mt_to_world) = Some ''collect_to_account''"
proof -
  have s: "step (state mt_to_world) = Some ''collect_to_account''"
    by (simp add: mt_to_world_def world_at_def)
  have f: "slots (state mt_to_world) ''from_account'' = Some (SStr ''CHK-001'')"
    by (simp add: mt_to_world_def world_at_def)
  have n: "''CHK-001'' \<noteq> []"
    by simp
  have t: "strip ''CHK-001'' = ''CHK-001''"
    by code_simp
  have e: "''CHK-001'' = ''CHK-001'' \<or> strip ''CHK-001'' = ''CHK-001''"
    by simp
  from transfer_to_source_account_rejected [OF s f n t e, of sample_engine] s t
  show ?thesis
    by simp
qed

section \<open>Amounts\<close>

text \<open>
  What the two numeric steps do with an input that \<^verbatim>\<open>float\<close> refuses, or reads as a
  value for which \<^verbatim>\<open>amount <= 0\<close> holds: an error reply, and the world as it was.
\<close>

lemma amount_rejected:
  assumes "py_float (strip (remove_char (CHR '','') u)) = None
     \<or> (\<exists>a. py_float (strip (remove_char (CHR '','') u)) = Some a \<and> float_le_zero a)"
  shows "\<exists>r. AO_handle_initial_deposit eng u w = (Inr r, w) \<and> error r \<and> \<not> completed r"
    and "\<exists>r. MT_handle_amount eng u w = (Inr r, w) \<and> error r \<and> \<not> completed r"
  using assms
  by (auto simp: AO_handle_initial_deposit_def MT_handle_amount_def HandlerResult_def)

text \<open>
  Claim C2 does not hold of the code. The input \<open>nan\<close> is read by \<^verbatim>\<open>float\<close> as a NaN,
  for which \<^verbatim>\<open>amount <= 0\<close> is false, so both numeric steps store it and move on to the
  confirm step, with a prompt that is no error, although a NaN is not greater than zero.
\<close>

theorem nan_amount_is_accepted:
  "handle sample_engine AccountOpening ''nan'' ao_deposit_world =
     (Inr (HandlerResult
            (''Open a Checking account for Alice Johnson with an initial deposit of $nan.''
             @ '' Does everything look correct? (yes/no)'') False False),
      world_at AccountOpening ''confirm_submission''
        [(''initial_deposit'', SNum NaN), (''full_name'', SStr ''Alice Johnson''),
         (''account_type'', SStr ''checking'')])
   \<and> handle sample_engine MoneyTransfer ''NaN'' mt_amount_world =
     (Inr (HandlerResult
            (''Transfer $nan from CHK-001 to SAV-002.'' @ '' Does that look right? (yes/no)'')
            False False),
      world_at MoneyTransfer ''confirm_transfer''
        [(''amount'', SNum NaN), (''from_account'', SStr ''CHK-001''),
         (''to_account'', SStr ''SAV-002'')])"
proof -
  have p1: "py_float (strip (remove_char (CHR '','') ''nan'')) = Some NaN"
    by code_simp
  have p2: "py_float (strip (remove_char (CHR '','') ''NaN'')) = Some NaN"
    by code_simp
  have t: "ascii_title ''checking'' = ''Checking''"
    by code_simp
  show ?thesis
    using p1 p2 t
    by (simp add: ao_deposit_world_def mt_amount_world_def world_at_def AO_handle_def
        MT_handle_def AO_handle_initial_deposit_def MT_handle_amount_def float_le_zero_def
        set_slot_def set_step_def AO_prompt_def MT_prompt_def bnd_def get_slot_def
        slot_title_def slot_2f_def slot_str_def format_2f_def sample_engine_def
        HandlerResult_def)
qed

section \<open>Rerouting\<close>

lemma handlers_get_key [simp]: "handlers_get (h_handler_key h) = Some h"
  by (cases h) (simp_all add: handlers_get_def)

lemma handlers_get_Some: "handlers_get k = Some h \<Longrightarrow> k = h_handler_key h"
  by (cases h) (auto simp: handlers_get_def split: if_splits)

lemma start_outcome:
  "start eng h w = (Inr (HandlerResult (first_prompt h) False False), w\<lparr>state := started h\<rparr>)"
  by (cases h) (simp_all add: start_def started_def AO_prompt_def MT_prompt_def AD_prompt_def)

lemma maybe_reroute_fires:
  assumes "match (intents eng) u = Some i"
    and "Some (handler i) \<noteq> handler_key (state w)"
    and "handlers_get (handler i) = Some h"
  shows "maybe_reroute eng u w = (Inr (Some (first_prompt h)), w\<lparr>state := started h\<rparr>)"
  using assms
  by (simp add: maybe_reroute_def start_outcome HandlerResult_def reset_state_def)

lemma maybe_reroute_skips:
  assumes "stays_in_flow eng u w"
  shows "maybe_reroute eng u w = (Inr None, w)"
  using assms
  by (auto simp: maybe_reroute_def stays_in_flow_def split: option.splits)

lemma handle_message_continues:
  assumes "active (state w)" and "strip u \<noteq> []" and "lower (strip u) \<notin> cancel_keywords"
    and "stays_in_flow eng u w"
    and "handler_key (state w) = Some k" and "handlers_get k = Some h"
  shows "handle_message eng u w = finish_turn (handle eng h u w)"
  using assms
  by (simp add: handle_message_def maybe_reroute_skips route_to_handler_def finish_turn_def
      split: prod.splits sum.splits)

lemma sample_choices: "choices sample_engine = ''Checking, Savings''"
  by code_simp

lemma sample_match_transfer:
  "match (intents sample_engine) ''transfer money'' = Some (sample_intents ! 1)"
  by (simp add: sample_engine_def match_def sample_intents_def lower_def lower_char_def)

lemma lower_alice: "lower ''Alice Johnson'' = ''alice johnson''"
  by code_simp

lemma sample_match_name: "match (intents sample_engine) ''Alice Johnson'' = None"
  by (simp add: sample_engine_def match_def sample_intents_def lower_alice)

lemma sample_match_cancel: "match (intents sample_engine) ''cancel'' = None"
  by (simp add: sample_engine_def match_def sample_intents_def lower_def lower_char_def)

text \<open>
  Claim C3, as the code has it. Take an active state and an utterance that is not empty
  after trimming and is not a cancel phrase. If the router matches the raw utterance to
  an intent whose handler key differs from the active one and has a registered handler,
  \<^verbatim>\<open>handle_message\<close> replaces the state by the start state of that handler, with no
  slots, and returns the prompt of its first step. If the router finds no intent, or
  one whose handler key is the active one, and the active key has a registered handler,
  the utterance goes to that handler as the input of the current step, and the turn
  ends as every handled turn does (\<open>finish_turn\<close>).
\<close>

theorem reroute_or_continue:
  assumes "active (state w)" and "strip u \<noteq> []" and "lower (strip u) \<notin> cancel_keywords"
  shows "(match (intents eng) u = Some i \<longrightarrow> Some (handler i) \<noteq> handler_key (state w)
            \<longrightarrow> handlers_get (handler i) = Some h
            \<longrightarrow> handle_message eng u w = (Inr (first_prompt h), w\<lparr>state := started h\<rparr>)
                \<and> slots (started h) = Map.empty \<and> step (started h) = Some (first_step h))
     \<and> (match (intents eng) u = None
          \<or> (match (intents eng) u = Some i \<and> Some (handler i) = handler_key (state w))
            \<longrightarrow> handler_key (state w) = Some k \<longrightarrow> handlers_get k = Some h
            \<longrightarrow> handle_message eng u w = finish_turn (handle eng h u w))"
proof (intro conjI impI)
  assume "match (intents eng) u = Some i" "Some (handler i) \<noteq> handler_key (state w)"
    "handlers_get (handler i) = Some h"
  then have "maybe_reroute eng u w = (Inr (Some (first_prompt h)), w\<lparr>state := started h\<rparr>)"
    by (rule maybe_reroute_fires)
  then show "handle_message eng u w = (Inr (first_prompt h), w\<lparr>state := started h\<rparr>)"
    using assms by (simp add: handle_message_def)
next
  show "slots (started h) = Map.empty"
    by (simp add: started_def)
next
  show "step (started h) = Some (first_step h)"
    by (simp add: started_def)
next
  assume m: "match (intents eng) u = None
      \<or> (match (intents eng) u = Some i \<and> Some (handler i) = handler_key (state w))"
    and k: "handler_key (state w) = Some k" "handlers_get k = Some h"
  from m have "stays_in_flow eng u w"
    by (auto simp: stays_in_flow_def)
  then show "handle_message eng u w = finish_turn (handle eng h u w)"
    using assms k by (intro handle_message_continues)
qed

text \<open>
  The theorem in the middle of an account opening: ``transfer money'' starts the
  transfer flow, and a name is passed to the account-opening handler.
\<close>

theorem reroute_or_continue_witness:
  "active (state ao_deposit_world)
   \<and> match (intents sample_engine) ''transfer money'' = Some (sample_intents ! 1)
   \<and> handle_message sample_engine ''transfer money'' ao_deposit_world =
       (Inr ''Sure thing. Which account should the money come from?'',
        ao_deposit_world\<lparr>state := started MoneyTransfer\<rparr>)
   \<and> match (intents sample_engine) ''Alice Johnson'' = None
   \<and> handle_message sample_engine ''Alice Johnson'' ao_name_world =
       finish_turn (handle sample_engine AccountOpening ''Alice Johnson'' ao_name_world)"
proof -
  have a1: "active (state ao_deposit_world)"
    by (simp add: ao_deposit_world_def world_at_def active_def)
  have s1: "strip ''transfer money'' \<noteq> []"
    by code_simp
  have c1: "lower (strip ''transfer money'') \<notin> cancel_keywords"
    unfolding cancel_keywords_def by code_simp
  have k1: "Some (handler (sample_intents ! 1)) \<noteq> handler_key (state ao_deposit_world)"
    by (simp add: sample_intents_def ao_deposit_world_def world_at_def)
  have g1: "handlers_get (handler (sample_intents ! 1)) = Some MoneyTransfer"
    by (simp add: sample_intents_def handlers_get_def)
  have a2: "active (state ao_name_world)"
    by (simp add: ao_name_world_def world_at_def active_def)
  have s2: "strip ''Alice Johnson'' \<noteq> []"
    by code_simp
  have c2: "lower (strip ''Alice Johnson'') \<notin> cancel_keywords"
    unfolding cancel_keywords_def by code_simp
  have k2: "handler_key (state ao_name_world) = Some ''account_opening''"
    by (simp add: ao_name_world_def world_at_def)
  have g2: "handlers_get ''account_opening'' = Some AccountOpening"
    by (simp add: handlers_get_def)
  from reroute_or_continue [OF a1 s1 c1, where eng = sample_engine and i = "sample_intents ! 1"
      and h = MoneyTransfer]
    reroute_or_continue [OF a2 s2 c2, where eng = sample_engine and k = "''account_opening''"
      and h = AccountOpening]
    a1 sample_match_transfer sample_match_name k1 g1 k2 g2
  show ?thesis
    by simp
qed

text \<open>
  Claim C3 as the specification words it fails on a cancel phrase: in an active flow the
  router finds no intent for \<open>cancel\<close>, yet the utterance is not passed to the active
  handler (which would have stored it as the name); the engine answers it itself.
\<close>

theorem cancel_mid_flow_counterexample:
  "active (state ao_name_world)
   \<and> match (intents sample_engine) ''cancel'' = None
   \<and> handle_message sample_engine ''cancel'' ao_name_world = (Inr cancel_reply, initial_world)
   \<and> finish_turn (handle sample_engine AccountOpening ''cancel'' ao_name_world) =
       (Inr (''Thanks. What type of account would you like to open? ''
             @ ''Options: Checking, Savings.''),
        world_at AccountOpening ''collect_account_type'' [(''full_name'', SStr ''cancel'')])
   \<and> handle_message sample_engine ''cancel'' ao_name_world
       \<noteq> finish_turn (handle sample_engine AccountOpening ''cancel'' ao_name_world)"
proof -
  have a: "active (state ao_name_world)"
    by (simp add: ao_name_world_def world_at_def active_def)
  have s: "strip ''cancel'' = ''cancel''"
    by code_simp
  have l: "lower ''cancel'' = ''cancel''"
    by code_simp
  have e: "handle_message sample_engine ''cancel'' ao_name_world = (Inr cancel_reply, initial_world)"
    using s l
    by (simp add: handle_message_def cancel_keywords_def ao_name_world_def world_at_def
        reset_state_def reset_def initial_world_def)
  have h: "finish_turn (handle sample_engine AccountOpening ''cancel'' ao_name_world) =
       (Inr (''Thanks. What type of account would you like to open? ''
             @ ''Options: Checking, Savings.''),
        world_at AccountOpening ''collect_account_type'' [(''full_name'', SStr ''cancel'')])"
    using s sample_choices
    by (simp add: finish_turn_def AO_handle_def AO_handle_full_name_def ao_name_world_def
        world_at_def set_slot_def set_step_def AO_prompt_def HandlerResult_def)
  have "fst (handle_message sample_engine ''cancel'' ao_name_world)
      \<noteq> fst (finish_turn (handle sample_engine AccountOpening ''cancel'' ao_name_world))"
    unfolding e h by (simp add: cancel_reply_def)
  then have d: "handle_message sample_engine ''cancel'' ao_name_world
       \<noteq> finish_turn (handle sample_engine AccountOpening ''cancel'' ao_name_world)"
    by auto
  show ?thesis
    using a sample_match_cancel e h d by blast
qed

section \<open>Confirming through the engine\<close>

lemma sample_match_yes: "match (intents sample_engine) ''yes'' = None"
  by (simp add: sample_engine_def match_def sample_intents_def lower_def lower_char_def)

lemma sample_match_no: "match (intents sample_engine) ''no'' = None"
  by (simp add: sample_engine_def match_def sample_intents_def lower_def lower_char_def)

lemma send_match_send: "match (intents send_engine) ''send'' = Some (send_intents ! 1)"
  by (simp add: send_engine_def match_def send_intents_def lower_def lower_char_def)

lemma maybe_reroute_calls: "calls (snd (maybe_reroute eng u w)) = calls w"
  by (auto simp: maybe_reroute_def start_outcome HandlerResult_def reset_state_def
      split: option.splits)

lemma maybe_reroute_not_skipped:
  assumes "\<not> stays_in_flow eng u w"
  shows "fst (maybe_reroute eng u w) \<noteq> Inr None"
  using assms
  by (auto simp: maybe_reroute_def stays_in_flow_def start_outcome HandlerResult_def
      split: option.splits)

lemma handle_message_rerouted:
  assumes "active (state w)" and "strip u \<noteq> []" and "lower (strip u) \<notin> cancel_keywords"
    and "\<not> stays_in_flow eng u w"
  shows "snd (handle_message eng u w) = snd (maybe_reroute eng u w)"
proof -
  obtain r w1 where m: "maybe_reroute eng u w = (r, w1)"
    by (cases "maybe_reroute eng u w")
  have "r \<noteq> Inr None"
    using maybe_reroute_not_skipped [OF assms(4)] m by simp
  then show ?thesis
    using assms(1,2,3) m
    by (auto simp: handle_message_def split: sum.splits option.splits)
qed

text \<open>
  Claim C6, as the code has it. Take an active flow at its confirm step. When the
  reroute check lets the utterance through to the handler (the router finds no intent
  for it, or one with the active handler key), its trimmed lowercased form is one the
  handler takes as a yes, the slots are collected and the service returns an
  identifier, the turn calls the service once and leaves the state not active. When
  the trimmed lowercased form is \<open>no\<close>, \<open>n\<close> or \<open>cancel\<close>, the turn never calls a service,
  rerouted or not; and it leaves the state not active when the word is \<open>cancel\<close>, which
  the engine answers itself, or when the reroute check lets the utterance through.
\<close>

theorem confirmation_ends_flow:
  assumes "intent_name (state w) \<noteq> None"
    and "handler_key (state w) = Some (h_handler_key h)"
    and "step (state w) = Some (confirm_step h)"
  shows "(lower (strip u) \<in> affirmative h \<longrightarrow> stays_in_flow eng u w
            \<longrightarrow> commit_call h (state w) = Some c \<longrightarrow> respond eng (calls w) c = Inr ident
            \<longrightarrow> handle_message eng u w =
                  (Inr (success_reply h ident), reset_state (w\<lparr>calls := calls w @ [c]\<rparr>))
                \<and> \<not> active (state (snd (handle_message eng u w))))
     \<and> (lower (strip u) \<in> {''no'', ''n'', ''cancel''}
            \<longrightarrow> calls (snd (handle_message eng u w)) = calls w)
     \<and> (lower (strip u) \<in> {''no'', ''n'', ''cancel''}
            \<longrightarrow> lower (strip u) = ''cancel'' \<or> stays_in_flow eng u w
            \<longrightarrow> \<not> active (state (snd (handle_message eng u w))))"
proof (intro conjI impI)
  have act: "active (state w)"
    using assms by (simp add: active_def)
  {
    assume aff: "lower (strip u) \<in> affirmative h" and stay: "stays_in_flow eng u w"
      and c: "commit_call h (state w) = Some c" and r: "respond eng (calls w) c = Inr ident"
    have ne: "strip u \<noteq> []"
      using aff by (cases h) auto
    have nc: "lower (strip u) \<notin> cancel_keywords"
      using aff by (cases h) (auto simp: cancel_keywords_def)
    have "handle_message eng u w = finish_turn (handle eng h u w)"
      by (rule handle_message_continues [OF act ne nc stay assms(2) handlers_get_key])
    then show yes: "handle_message eng u w =
        (Inr (success_reply h ident), reset_state (w\<lparr>calls := calls w @ [c]\<rparr>))"
      using confirmation_affirmative [OF assms(3) aff c r]
      by (simp add: finish_turn_def HandlerResult_def)
    show "\<not> active (state (snd (handle_message eng u w)))"
      unfolding yes by (simp add: active_def)
  }
  {
    assume neg: "lower (strip u) \<in> {''no'', ''n'', ''cancel''}"
    have n: "lower (strip u) \<in> negative"
      using neg by (simp add: negative_def)
    have ne: "strip u \<noteq> []"
      using neg by auto
    have cancelled: "handle_message eng u w = (Inr cancel_reply, reset_state w)"
      if "lower (strip u) = ''cancel''"
      using that by (intro handle_message_cancel) (simp add: cancel_keywords_def)
    have nc: "lower (strip u) \<notin> cancel_keywords" if "lower (strip u) \<noteq> ''cancel''"
      using neg that by (auto simp: cancel_keywords_def)
    have declined: "handle_message eng u w
        = (Inr (decline_reply h), reset_state w)"
      if "lower (strip u) \<noteq> ''cancel''" and stay: "stays_in_flow eng u w"
    proof -
      have "handle_message eng u w = finish_turn (handle eng h u w)"
        by (rule handle_message_continues
            [OF act ne nc [OF that(1)] stay assms(2) handlers_get_key])
      then show ?thesis
        using confirmation_negative [OF assms(3) n]
        by (simp add: finish_turn_def HandlerResult_def)
    qed
    show "calls (snd (handle_message eng u w)) = calls w"
    proof (cases "lower (strip u) = ''cancel''")
      case True
      then show ?thesis
        using cancelled by simp
    next
      case False
      show ?thesis
      proof (cases "stays_in_flow eng u w")
        case True
        then show ?thesis
          using declined [OF False] by simp
      next
        case out: False
        have "snd (handle_message eng u w) = snd (maybe_reroute eng u w)"
          by (rule handle_message_rerouted [OF act ne nc [OF False] out])
        then show ?thesis
          by (simp add: maybe_reroute_calls)
      qed
    qed
    {
      assume way: "lower (strip u) = ''cancel'' \<or> stays_in_flow eng u w"
      show "\<not> active (state (snd (handle_message eng u w)))"
      proof (cases "lower (strip u) = ''cancel''")
        case True
        then show ?thesis
          using cancelled by (simp add: active_def)
      next
        case False
        then have "stays_in_flow eng u w"
          using way by simp
        then show ?thesis
          using declined [OF False] by (simp add: active_def)
      qed
    }
  }
qed

text \<open>
  The theorem on a transfer confirmed with \<open>yes\<close> and on an advisor message declined with
  \<open>no\<close>.
\<close>

theorem confirmation_ends_flow_witness:
  "stays_in_flow sample_engine ''yes'' mt_confirm_world
   \<and> handle_message sample_engine ''yes'' mt_confirm_world =
       (Inr ''Done! Transfer TRX0001 is complete. Anything else I can help with?'',
        initial_world\<lparr>calls :=
          [Transfer (SStr ''CHK-001'') (SStr ''SAV-002'') (SNum (Fin (301 / 4)))]\<rparr>)
   \<and> \<not> active (state (snd (handle_message sample_engine ''yes'' mt_confirm_world)))
   \<and> \<not> active (state (snd (handle_message sample_engine ''no'' ad_confirm_world)))
   \<and> calls (snd (handle_message sample_engine ''no'' ad_confirm_world)) = []"
proof -
  have i1: "intent_name (state mt_confirm_world) \<noteq> None"
    and k1: "handler_key (state mt_confirm_world) = Some (h_handler_key MoneyTransfer)"
    and s1: "step (state mt_confirm_world) = Some (confirm_step MoneyTransfer)"
    by (simp_all add: mt_confirm_world_def world_at_def)
  have y: "lower (strip ''yes'') = ''yes''"
    by code_simp
  then have a1: "lower (strip ''yes'') \<in> affirmative MoneyTransfer"
    by simp
  have f1: "stays_in_flow sample_engine ''yes'' mt_confirm_world"
    by (simp add: stays_in_flow_def sample_match_yes)
  have c1: "commit_call MoneyTransfer (state mt_confirm_world) =
      Some (Transfer (SStr ''CHK-001'') (SStr ''SAV-002'') (SNum (Fin (301 / 4))))"
    by (simp add: mt_confirm_world_def world_at_def)
  have m1: "in_memory [] (Transfer (SStr ''CHK-001'') (SStr ''SAV-002'') (SNum (Fin (301 / 4))))
      = Inr ''TRX0001''"
    by code_simp
  have r1: "respond sample_engine (calls mt_confirm_world)
      (Transfer (SStr ''CHK-001'') (SStr ''SAV-002'') (SNum (Fin (301 / 4)))) = Inr ''TRX0001''"
    using m1 by (simp add: sample_engine_def mt_confirm_world_def world_at_def)
  have i2: "intent_name (state ad_confirm_world) \<noteq> None"
    and k2: "handler_key (state ad_confirm_world) = Some (h_handler_key AdvisorMessaging)"
    and s2: "step (state ad_confirm_world) = Some (confirm_step AdvisorMessaging)"
    by (simp_all add: ad_confirm_world_def world_at_def)
  have n: "lower (strip ''no'') = ''no''"
    by code_simp
  then have a2: "lower (strip ''no'') \<in> {''no'', ''n'', ''cancel''}"
    by simp
  have f2: "stays_in_flow sample_engine ''no'' ad_confirm_world"
    by (simp add: stays_in_flow_def sample_match_no)
  have e: "reset_state (mt_confirm_world\<lparr>calls :=
          [Transfer (SStr ''CHK-001'') (SStr ''SAV-002'') (SNum (Fin (301 / 4)))]\<rparr>)
      = initial_world\<lparr>calls :=
          [Transfer (SStr ''CHK-001'') (SStr ''SAV-002'') (SNum (Fin (301 / 4)))]\<rparr>"
    by (simp add: reset_state_def reset_def initial_world_def mt_confirm_world_def world_at_def)
  have c0: "calls mt_confirm_world = []" "calls ad_confirm_world = []"
    by (simp_all add: mt_confirm_world_def ad_confirm_world_def world_at_def)
  from confirmation_ends_flow [OF i1 k1 s1, where u = "''yes''" and eng = sample_engine
      and c = "Transfer (SStr ''CHK-001'') (SStr ''SAV-002'') (SNum (Fin (301 / 4)))"
      and ident = "''TRX0001''"] a1 f1 c1 r1
  have yes: "handle_message sample_engine ''yes'' mt_confirm_world =
        (Inr (success_reply MoneyTransfer ''TRX0001''),
         reset_state (mt_confirm_world\<lparr>calls := calls mt_confirm_world
           @ [Transfer (SStr ''CHK-001'') (SStr ''SAV-002'') (SNum (Fin (301 / 4)))]\<rparr>))
      \<and> \<not> active (state (snd (handle_message sample_engine ''yes'' mt_confirm_world)))"
    by blast
  from confirmation_ends_flow [OF i2 k2 s2, where u = "''no''" and eng = sample_engine] a2 f2
  have no: "\<not> active (state (snd (handle_message sample_engine ''no'' ad_confirm_world)))
      \<and> calls (snd (handle_message sample_engine ''no'' ad_confirm_world))
          = calls ad_confirm_world"
    by blast
  show ?thesis
    using yes no f1 e c0 by (simp add: initial_world_def active_def)
qed

text \<open>
  Claim C6 as the specification words it fails when the reroute check fires first. With
  \<open>send\<close> a keyword of the transfer intent, the answer \<open>send\<close> at the confirm step of an
  advisor message, which that handler takes as a yes, never reaches the handler: the
  engine starts the transfer flow, and the state is active after the turn.
\<close>

theorem reroute_at_confirm_counterexample:
  "active (state ad_confirm_world)
   \<and> step (state ad_confirm_world) = Some (confirm_step AdvisorMessaging)
   \<and> lower (strip ''send'') \<in> affirmative AdvisorMessaging
   \<and> handle_message send_engine ''send'' ad_confirm_world =
       (Inr ''Sure thing. Which account should the money come from?'',
        ad_confirm_world\<lparr>state := started MoneyTransfer\<rparr>)
   \<and> active (state (snd (handle_message send_engine ''send'' ad_confirm_world)))"
proof -
  have a: "active (state ad_confirm_world)"
    and s: "step (state ad_confirm_world) = Some (confirm_step AdvisorMessaging)"
    by (simp_all add: ad_confirm_world_def world_at_def active_def)
  have l: "lower (strip ''send'') = ''send''"
    by code_simp
  have ne: "strip ''send'' \<noteq> []"
    by code_simp
  have nc: "lower (strip ''send'') \<notin> cancel_keywords"
    using l by (simp add: cancel_keywords_def)
  have k: "Some (handler (send_intents ! 1)) \<noteq> handler_key (state ad_confirm_world)"
    by (simp add: send_intents_def ad_confirm_world_def world_at_def)
  have g: "handlers_get (handler (send_intents ! 1)) = Some MoneyTransfer"
    by (simp add: send_intents_def handlers_get_def)
  have "maybe_reroute send_engine ''send'' ad_confirm_world =
      (Inr (Some (first_prompt MoneyTransfer)), ad_confirm_world\<lparr>state := started MoneyTransfer\<rparr>)"
    by (rule maybe_reroute_fires [OF send_match_send k g])
  then have r: "handle_message send_engine ''send'' ad_confirm_world =
       (Inr ''Sure thing. Which account should the money come from?'',
        ad_confirm_world\<lparr>state := started MoneyTransfer\<rparr>)"
    using a ne nc by (simp add: handle_message_def)
  have b: "active (state (snd (handle_message send_engine ''send'' ad_confirm_world)))"
    unfolding r by (simp add: active_def started_def)
  show ?thesis
    using a s l r b by simp
qed

section \<open>The flow fields\<close>

lemma consistent_cleared [simp]:
  "consistent \<lparr>intent_name = None, handler_key = None, step = None, slots = m\<rparr>"
  by (simp add: consistent_def)

lemma consistent_started [simp]: "consistent (started h)"
  by (simp add: consistent_def started_def)

lemma AO_handle_keeps_flow:
  "intent_name (state (snd (AO_handle eng u w))) = intent_name (state w)
   \<and> handler_key (state (snd (AO_handle eng u w))) = handler_key (state w)
   \<and> (step (state w) \<noteq> None \<longrightarrow> step (state (snd (AO_handle eng u w))) \<noteq> None)
   \<and> (step (state w) = None \<longrightarrow> step (state (snd (AO_handle eng u w))) = None)"
  by (auto simp: AO_handle_def AO_handle_full_name_def AO_handle_account_type_def
      AO_handle_initial_deposit_def AO_handle_confirmation_def call_service_def
      set_slot_def set_step_def Let_def split: option.splits sum.splits)

lemma MT_handle_keeps_flow:
  "intent_name (state (snd (MT_handle eng u w))) = intent_name (state w)
   \<and> handler_key (state (snd (MT_handle eng u w))) = handler_key (state w)
   \<and> (step (state w) \<noteq> None \<longrightarrow> step (state (snd (MT_handle eng u w))) \<noteq> None)
   \<and> (step (state w) = None \<longrightarrow> step (state (snd (MT_handle eng u w))) = None)"
  by (auto simp: MT_handle_def MT_handle_from_account_def MT_handle_to_account_def
      MT_handle_amount_def MT_handle_confirmation_def call_service_def
      set_slot_def set_step_def Let_def split: option.splits sum.splits)

lemma AD_handle_keeps_flow:
  "intent_name (state (snd (AD_handle eng u w))) = intent_name (state w)
   \<and> handler_key (state (snd (AD_handle eng u w))) = handler_key (state w)
   \<and> (step (state w) \<noteq> None \<longrightarrow> step (state (snd (AD_handle eng u w))) \<noteq> None)
   \<and> (step (state w) = None \<longrightarrow> step (state (snd (AD_handle eng u w))) = None)"
  by (auto simp: AD_handle_def AD_handle_topic_def AD_handle_message_def
      AD_handle_confirmation_def call_service_def
      set_slot_def set_step_def Let_def split: option.splits sum.splits)

lemma handle_consistent:
  assumes "consistent (state w)"
  shows "consistent (state (snd (handle eng h u w)))"
proof (cases h)
  case AccountOpening
  then show ?thesis
    using assms AO_handle_keeps_flow [of eng u w] by (auto simp: consistent_def)
next
  case MoneyTransfer
  then show ?thesis
    using assms MT_handle_keeps_flow [of eng u w] by (auto simp: consistent_def)
next
  case AdvisorMessaging
  then show ?thesis
    using assms AD_handle_keeps_flow [of eng u w] by (auto simp: consistent_def)
qed

lemma maybe_reroute_consistent:
  assumes "consistent (state w)"
  shows "consistent (state (snd (maybe_reroute eng u w)))
     \<and> (fst (maybe_reroute eng u w) = Inr None \<longrightarrow> snd (maybe_reroute eng u w) = w)"
  using assms
  by (auto simp: maybe_reroute_def start_outcome HandlerResult_def reset_state_def
      split: option.splits)

lemma route_to_handler_consistent:
  assumes "consistent (state w)"
  shows "consistent (state (snd (route_to_handler eng u w)))"
  using assms handle_consistent [OF assms]
  by (auto simp: route_to_handler_def start_outcome split: option.splits)

lemma handle_message_consistent:
  assumes "consistent (state w)"
  shows "consistent (state (snd (handle_message eng u w)))"
proof -
  obtain r w1 where m: "maybe_reroute eng u w = (r, w1)"
    by (cases "maybe_reroute eng u w")
  have m1: "consistent (state w1)" and m2: "r = Inr None \<longrightarrow> w1 = w"
    using maybe_reroute_consistent [OF assms, of eng u] m by simp_all
  obtain q w2 where t: "route_to_handler eng u w = (q, w2)"
    by (cases "route_to_handler eng u w")
  have t1: "consistent (state w2)"
    using route_to_handler_consistent [OF assms, of eng u] t by simp
  show ?thesis
    using assms m m1 m2 t t1
    by (auto simp: handle_message_def Let_def split: sum.splits option.splits)
qed

lemma run_consistent:
  "consistent (state w) \<Longrightarrow> consistent (state (run eng us w))"
  by (induction us arbitrary: w) (simp_all add: handle_message_consistent)

lemma consistent_active: "consistent st \<Longrightarrow> active st = (step st \<noteq> None)"
  by (auto simp: consistent_def active_def split: if_splits)

text \<open>
  Claim C9. Call a state consistent when \<open>intent_name\<close>, \<open>handler_key\<close> and \<open>step\<close> are
  all unset or all set. The state reached from the empty one by any sequence of
  \<^verbatim>\<open>handle_message\<close> calls is consistent, so it is active exactly when its step is set,
  and every single turn keeps a consistent state consistent. This holds of the state a
  call leaves behind whether it returns a reply or raises, hence after every call that
  returns normally.
\<close>

theorem flow_fields_set_together:
  "consistent (state (run eng us initial_world))
   \<and> active (state (run eng us initial_world))
       = (step (state (run eng us initial_world)) \<noteq> None)
   \<and> (consistent (state w) \<longrightarrow> consistent (state (snd (handle_message eng u w))))
   \<and> consistent st
       = (intent_name st = None \<and> handler_key st = None \<and> step st = None
          \<or> intent_name st \<noteq> None \<and> handler_key st \<noteq> None \<and> step st \<noteq> None)"
proof -
  have "consistent (state initial_world)"
    by (simp add: initial_world_def consistent_def)
  then have c: "consistent (state (run eng us initial_world))"
    by (rule run_consistent)
  show ?thesis
    using c consistent_active [OF c] handle_message_consistent [of w eng u]
    by (auto simp: consistent_def)
qed

text \<open>
  The theorem on the turn that confirms an account opening, and on the first two turns
  of a conversation.
\<close>

theorem flow_fields_set_together_witness:
  "consistent (state ao_confirm_world)
   \<and> consistent (state (snd (handle_message sample_engine ''yes'' ao_confirm_world)))
   \<and> consistent (state (run sample_engine [''open account'', ''Alice Johnson''] initial_world))"
proof -
  have c: "consistent (state ao_confirm_world)"
    by (simp add: ao_confirm_world_def world_at_def consistent_def)
  from flow_fields_set_together [where eng = sample_engine and w = ao_confirm_world
      and u = "''yes''" and us = "[''open account'', ''Alice Johnson'']"] c
  show ?thesis
    by blast
qed

end
